theory Spec2Isabelle
  imports Complex_Main "HOL-Library.Sublist" "HOL-Library.State_Monad"
begin

section \<open>Data model\<close>

text \<open>
  The strategies of \<^verbatim>\<open>text_evaluator/strategy.py\<close> work on Python numbers, dictionaries and
  strings. In this development
  \<^item> a number (an \<^verbatim>\<open>int\<close> count, a \<^verbatim>\<open>float\<close> fraction) is a rational: true division
    \<^verbatim>\<open>/\<close> is exact division, and the rounding of floats is not modelled;
  \<^item> a dictionary is an association list in insertion order, which is the order in which
    \<^verbatim>\<open>items()\<close> and a dictionary comprehension go through it; the keys of a dictionary are
    distinct, which the theorems that need it assume as \<open>distinct (map fst d)\<close>;
  \<^item> a raised exception is the left summand of \<open>error + 'a\<close>.
\<close>

datatype error = KeyError | ZeroDivisionError | TypeError

type_synonym concept_dict = "(string \<times> rat) list"

text \<open>
  The dataclass \<^verbatim>\<open>DocumentMetadata\<close>. Its field \<^verbatim>\<open>text\<close> is called \<open>text_of\<close> here.
\<close>

record DocumentMetadata =
  statistics :: "(string \<times> concept_dict) list"
  text_of :: string

text \<open>The dataclass \<^verbatim>\<open>Result\<close>.\<close>

record Result =
  concepts :: "string list"

text \<open>The subscription \<^verbatim>\<open>d[k]\<close> of a dictionary raises \<^verbatim>\<open>KeyError\<close> for a missing key.\<close>

definition dict_get :: "('k \<times> 'v) list \<Rightarrow> 'k \<Rightarrow> error + 'v" where
  "dict_get d k = (case map_of d k of None \<Rightarrow> Inl KeyError | Some v \<Rightarrow> Inr v)"

text \<open>The class attribute of \<^verbatim>\<open>CountStatisticsStrategy\<close>.\<close>

definition evaluated_statistics_name :: string where
  "evaluated_statistics_name = ''count''"

text \<open>
  \<^verbatim>\<open>sorted(d.items(), key=lambda item: item[1], reverse=True)\<close>: Python's sort is stable,
  also with \<^verbatim>\<open>reverse=True\<close>, so items of equal value keep the order of the dictionary. The
  stable insertion sort of HOL on the negated value does the same.
\<close>

definition sorted_by_value_reverse :: "concept_dict \<Rightarrow> concept_dict" where
  "sorted_by_value_reverse items = sort_key (\<lambda>item. - snd item) items"

section \<open>Regular expressions\<close>

text \<open>
  \<^verbatim>\<open>ConceptFractionInAllWordsStrategy\<close> uses two compiled patterns,
  \<^verbatim>\<open><em.+>(.+?)</em>\<close> and \<^verbatim>\<open><.*?>|\s\<close>. The fragment of Python's \<^verbatim>\<open>re\<close> they are written
  in is modelled here with the backtracking order of \<^verbatim>\<open>re\<close>: a pattern is a list of
  alternatives, tried from left to right; an alternative is a list of items; an item is
  one atom, or an atom under a greedy \<^verbatim>\<open>+\<close>, a lazy \<^verbatim>\<open>+?\<close> or a lazy \<^verbatim>\<open>*?\<close>. The capture group
  of the first pattern is never read and is left out.

  A text is a \<open>string\<close>, each \<open>char\<close> standing for one code point below 256.
\<close>

datatype atom = Chr char | AnyChar | Whitespace

datatype item = One atom | PlusGreedy atom | PlusLazy atom | StarLazy atom

text \<open>
  \<^verbatim>\<open>\s\<close> in a \<^verbatim>\<open>str\<close> pattern is the Unicode white space: below 256 these are the code points
  9 to 13, 28 to 32, 133 and 160.
\<close>

definition is_whitespace :: "char \<Rightarrow> bool" where
  "is_whitespace c =
     (let n = (of_char c :: nat)
      in (9 \<le> n \<and> n \<le> 13) \<or> (28 \<le> n \<and> n \<le> 32) \<or> n = 133 \<or> n = 160)"

text \<open>Without the flag \<^verbatim>\<open>DOTALL\<close>, the dot matches every character but the line feed.\<close>

fun atom_matches :: "atom \<Rightarrow> char \<Rightarrow> bool" where
  "atom_matches (Chr d) c = (c = d)"
| "atom_matches AnyChar c = (c \<noteq> CHR 0x0A)"
| "atom_matches Whitespace c = is_whitespace c"

text \<open>
  \<open>match_items p s\<close> matches the items \<open>p\<close> at the start of \<open>s\<close> and returns what is left
  of \<open>s\<close> after the first match in backtracking order. A greedy repetition first tries to
  take one more character and falls back to the rest of the pattern; a lazy one first tries
  the rest of the pattern and falls back to taking one more character.
\<close>

function match_items :: "item list \<Rightarrow> string \<Rightarrow> string option"
  and star_greedy :: "atom \<Rightarrow> item list \<Rightarrow> string \<Rightarrow> string option"
  and star_lazy :: "atom \<Rightarrow> item list \<Rightarrow> string \<Rightarrow> string option" where
  "match_items [] s = Some s"
| "match_items (One a # p) s =
     (case s of [] \<Rightarrow> None
      | c # cs \<Rightarrow> if atom_matches a c then match_items p cs else None)"
| "match_items (PlusGreedy a # p) s =
     (case s of [] \<Rightarrow> None
      | c # cs \<Rightarrow> if atom_matches a c then star_greedy a p cs else None)"
| "match_items (PlusLazy a # p) s =
     (case s of [] \<Rightarrow> None
      | c # cs \<Rightarrow> if atom_matches a c then star_lazy a p cs else None)"
| "match_items (StarLazy a # p) s = star_lazy a p s"
| "star_greedy a p [] = match_items p []"
| "star_greedy a p (c # cs) =
     (if atom_matches a c
      then (case star_greedy a p cs of Some r \<Rightarrow> Some r | None \<Rightarrow> match_items p (c # cs))
      else match_items p (c # cs))"
| "star_lazy a p s =
     (case match_items p s of
        Some r \<Rightarrow> Some r
      | None \<Rightarrow>
          (case s of [] \<Rightarrow> None
           | c # cs \<Rightarrow> if atom_matches a c then star_lazy a p cs else None))"
  by pat_completeness auto
termination
  by (relation "measures
        [\<lambda>x. case x of Inl (p, s) \<Rightarrow> 2 * length p
                      | Inr (Inl (a, p, s)) \<Rightarrow> 2 * length p + 1
                      | Inr (Inr (a, p, s)) \<Rightarrow> 2 * length p + 1,
         \<lambda>x. case x of Inl (p, s) \<Rightarrow> length s
                      | Inr (Inl (a, p, s)) \<Rightarrow> length s
                      | Inr (Inr (a, p, s)) \<Rightarrow> length s]") auto

fun match_alternatives :: "item list list \<Rightarrow> string \<Rightarrow> string option" where
  "match_alternatives [] s = None"
| "match_alternatives (p # ps) s =
     (case match_items p s of Some r \<Rightarrow> Some r | None \<Rightarrow> match_alternatives ps s)"

definition literal :: "string \<Rightarrow> item list" where
  "literal s = map (\<lambda>c. One (Chr c)) s"

text \<open>
  \<^verbatim>\<open>pattern.sub(repl, string, count)\<close> with \<^verbatim>\<open>count > 0\<close>: the matches are looked for from
  left to right, each one starting where the one before ended, and at most \<^verbatim>\<open>count\<close> of
  them are replaced. Both patterns of the strategy take at least one character; the last
  branch (a match that takes nothing) is there to make the function total and is never
  reached with them.
\<close>

fun sub_upto :: "item list list \<Rightarrow> string \<Rightarrow> nat \<Rightarrow> string \<Rightarrow> string" where
  "sub_upto p repl n [] = []"
| "sub_upto p repl n (c # cs) =
     (if n = 0 then c # cs
      else (case match_alternatives p (c # cs) of
              None \<Rightarrow> c # sub_upto p repl n cs
            | Some rest \<Rightarrow>
                if length rest \<le> length cs then repl @ sub_upto p repl (n - 1) rest
                else repl @ c # sub_upto p repl (n - 1) cs))"

text \<open>
  \<^verbatim>\<open>pattern.sub(repl, string, count)\<close>: a \<^verbatim>\<open>count\<close> of 0 replaces every match. A text has
  fewer matches that take a character than it has characters, so that bound stands for
  "every match".
\<close>

definition re_sub :: "item list list \<Rightarrow> string \<Rightarrow> string \<Rightarrow> nat \<Rightarrow> string" where
  "re_sub p repl s count =
     (if count = 0 then sub_upto p repl (length s) s else sub_upto p repl count s)"

text \<open>
  \<^verbatim>\<open>pattern.split(string)\<close> for a pattern without groups: the pieces of the string between
  the matches, the empty ones included. \<open>piece\<close> holds the characters read since the last
  match.
\<close>

fun split_from :: "item list list \<Rightarrow> string \<Rightarrow> string \<Rightarrow> string list" where
  "split_from p piece [] = [piece]"
| "split_from p piece (c # cs) =
     (case match_alternatives p (c # cs) of
        None \<Rightarrow> split_from p (piece @ [c]) cs
      | Some rest \<Rightarrow>
          if length rest \<le> length cs then piece # split_from p [] rest
          else split_from p (piece @ [c]) cs)"

definition re_split :: "item list list \<Rightarrow> string \<Rightarrow> string list" where
  "re_split p s = split_from p [] s"

text \<open>The value of the flag \<^verbatim>\<open>re.DOTALL\<close> as an integer.\<close>

definition re_DOTALL :: nat where
  "re_DOTALL = 16"

section \<open>The strategies based on fractions\<close>

text \<open>
  The constructor arguments of \<^verbatim>\<open>FractionEvaluationStrategy\<close>. \<^verbatim>\<open>number_of_concepts\<close> is a
  Python \<^verbatim>\<open>int\<close>; \<^verbatim>\<open>min_fraction\<close> is \<^verbatim>\<open>None\<close> or a number.
\<close>

record FractionEvaluationStrategy =
  number_of_concepts :: int
  min_fraction :: "rat option"

text \<open>
  The slice \<^verbatim>\<open>xs[:stop]\<close>: a negative \<^verbatim>\<open>stop\<close> counts from the end of the list.
\<close>

definition slice_upto :: "'a list \<Rightarrow> int \<Rightarrow> 'a list" where
  "slice_upto xs stop =
     (if 0 \<le> stop then take (nat stop) xs else take (length xs - nat (- stop)) xs)"

text \<open>\<^verbatim>\<open>FractionEvaluationStrategy._filter_concepts\<close>\<close>

definition FractionEvaluation_filter_concepts ::
  "FractionEvaluationStrategy \<Rightarrow> concept_dict \<Rightarrow> concept_dict" where
  "FractionEvaluation_filter_concepts self evaluated_concept_statistics =
     filter (\<lambda>(uri, uri_fraction_in_text).
               case min_fraction self of None \<Rightarrow> True
               | Some m \<Rightarrow> uri_fraction_in_text \<ge> m)
            evaluated_concept_statistics"

text \<open>\<^verbatim>\<open>FractionEvaluationStrategy._create_result\<close>\<close>

definition FractionEvaluation_create_result ::
  "FractionEvaluationStrategy \<Rightarrow> concept_dict \<Rightarrow> Result" where
  "FractionEvaluation_create_result self evaluated_concept_statistics =
     (let filtered_concepts = FractionEvaluation_filter_concepts self evaluated_concept_statistics;
          sorted_concepts = map fst (sorted_by_value_reverse filtered_concepts)
      in \<lparr>concepts = slice_upto sorted_concepts (number_of_concepts self + 1)\<rparr>)"

text \<open>
  \<^verbatim>\<open>FractionEvaluationStrategy.parse\<close>. \<^verbatim>\<open>evaluate_metadata\<close> is abstract in this class; the
  model takes the method of the concrete class as its first argument.
\<close>

definition FractionEvaluation_parse ::
  "(DocumentMetadata \<Rightarrow> error + concept_dict) \<Rightarrow> FractionEvaluationStrategy \<Rightarrow>
   DocumentMetadata \<Rightarrow> error + Result" where
  "FractionEvaluation_parse evaluate_metadata self document_metadata =
     (case evaluate_metadata document_metadata of
        Inl e \<Rightarrow> Inl e
      | Inr evaluated_concept_statistics \<Rightarrow>
          Inr (FractionEvaluation_create_result self evaluated_concept_statistics))"

text \<open>True division \<^verbatim>\<open>a / b\<close> raises \<^verbatim>\<open>ZeroDivisionError\<close> when \<^verbatim>\<open>b\<close> is zero.\<close>

definition true_div :: "rat \<Rightarrow> rat \<Rightarrow> error + rat" where
  "true_div a b = (if b = 0 then Inl ZeroDivisionError else Inr (a / b))"

text \<open>
  A dictionary comprehension \<^verbatim>\<open>{k: f(k, v) for k, v in d.items()}\<close> whose value expression
  may raise: the items are taken in order and the first exception ends the comprehension.
\<close>

fun dict_comprehension ::
  "('k \<Rightarrow> 'v \<Rightarrow> error + 'w) \<Rightarrow> ('k \<times> 'v) list \<Rightarrow> error + ('k \<times> 'w) list" where
  "dict_comprehension f [] = Inr []"
| "dict_comprehension f ((k, v) # items) =
     (case f k v of
        Inl e \<Rightarrow> Inl e
      | Inr w \<Rightarrow>
          (case dict_comprehension f items of
             Inl e \<Rightarrow> Inl e
           | Inr rest \<Rightarrow> Inr ((k, w) # rest)))"

text \<open>The class attributes of \<^verbatim>\<open>ConceptFractionInAllWordsStrategy\<close>.\<close>

definition re_extract_annotated_words :: "item list list" where
  "re_extract_annotated_words =
     [literal ''<em'' @ [PlusGreedy AnyChar] @ literal ''>'' @ [PlusLazy AnyChar]
      @ literal ''</em>'']"

definition re_word_split :: "item list list" where
  "re_word_split = [literal ''<'' @ [StarLazy AnyChar] @ literal ''>'', [One Whitespace]]"

text \<open>
  The first lines of \<^verbatim>\<open>ConceptFractionInAllWordsStrategy.evaluate_metadata\<close>, up to
  \<^verbatim>\<open>word_count\<close>. The third positional argument of \<^verbatim>\<open>sub\<close> is \<^verbatim>\<open>count\<close>, so the flag
  \<^verbatim>\<open>re.DOTALL\<close> is taken as the number of replacements. \<^verbatim>\<open>words\<close> is a set comprehension,
  and \<^verbatim>\<open>len\<close> of a set is the number of its elements.
\<close>

definition replace_annotated_words :: "string \<Rightarrow> string" where
  "replace_annotated_words text = re_sub re_extract_annotated_words ''foo'' text re_DOTALL"

definition words_of :: "string \<Rightarrow> string set" where
  "words_of text =
     set (filter (\<lambda>word. word \<noteq> []) (re_split re_word_split (replace_annotated_words text)))"

definition word_count :: "string \<Rightarrow> nat" where
  "word_count text = card (words_of text)"

text \<open>\<^verbatim>\<open>ConceptFractionInAllWordsStrategy.evaluate_metadata\<close>\<close>

definition InAllWords_evaluate_metadata :: "DocumentMetadata \<Rightarrow> error + concept_dict" where
  "InAllWords_evaluate_metadata document_metadata =
     (let n = word_count (text_of document_metadata)
      in case dict_get (statistics document_metadata) evaluated_statistics_name of
           Inl e \<Rightarrow> Inl e
         | Inr counts \<Rightarrow>
             dict_comprehension (\<lambda>concept_name count. true_div count (of_nat n)) counts)"

text \<open>\<^verbatim>\<open>ConceptFractionInAllConceptsStrategy.evaluate_metadata\<close>\<close>

definition InAllConcepts_evaluate_metadata :: "DocumentMetadata \<Rightarrow> error + concept_dict" where
  "InAllConcepts_evaluate_metadata document_metadata =
     (case dict_get (statistics document_metadata) evaluated_statistics_name of
        Inl e \<Rightarrow> Inl e
      | Inr counts \<Rightarrow>
          (let annotation_count = sum_list (map snd counts)
           in dict_comprehension (\<lambda>concept_name count. true_div count annotation_count)
                counts))"

text \<open>The \<^verbatim>\<open>parse\<close> of the two concrete classes.\<close>

definition ConceptFractionInAllWordsStrategy_parse ::
  "FractionEvaluationStrategy \<Rightarrow> DocumentMetadata \<Rightarrow> error + Result" where
  "ConceptFractionInAllWordsStrategy_parse =
     FractionEvaluation_parse InAllWords_evaluate_metadata"

definition ConceptFractionInAllConceptsStrategy_parse ::
  "FractionEvaluationStrategy \<Rightarrow> DocumentMetadata \<Rightarrow> error + Result" where
  "ConceptFractionInAllConceptsStrategy_parse =
     FractionEvaluation_parse InAllConcepts_evaluate_metadata"

section \<open>The strategies filtering by the average count\<close>

text \<open>\<^verbatim>\<open>ConceptFractionFilteredByFractionAverageStrategy.evaluate_metadata\<close>\<close>

definition FractionAverage_evaluate_metadata :: "DocumentMetadata \<Rightarrow> error + concept_dict" where
  "FractionAverage_evaluate_metadata document_metadata =
     (case dict_get (statistics document_metadata) evaluated_statistics_name of
        Inl e \<Rightarrow> Inl e
      | Inr counts \<Rightarrow> Inr (map (\<lambda>(concept_name, count). (concept_name, count)) counts))"

text \<open>\<^verbatim>\<open>ConceptFractionFilteredByFractionAverageStrategy._calculate_concept_fraction_average\<close>\<close>

definition calculate_concept_fraction_average :: "DocumentMetadata \<Rightarrow> error + rat" where
  "calculate_concept_fraction_average document_metadata =
     (case dict_get (statistics document_metadata) evaluated_statistics_name of
        Inl e \<Rightarrow> Inl e
      | Inr counts \<Rightarrow>
          (let annotation_count = sum_list (map snd counts);
               number_of_concepts = length counts
           in if number_of_concepts = 0 then Inr 0
              else Inr (annotation_count / of_nat number_of_concepts)))"

text \<open>
  \<^verbatim>\<open>ConceptFractionFilteredByFractionAverageStrategy._create_result\<close>. Its parameter
  \<^verbatim>\<open>evaluated_concept_statistics\<close> has no default value, and a call that leaves a required
  argument out raises \<^verbatim>\<open>TypeError\<close>. The argument is therefore an option: \<open>None\<close> is the call
  \<^verbatim>\<open>self._create_result()\<close>.
\<close>

definition FractionAverage_create_result :: "concept_dict option \<Rightarrow> error + Result" where
  "FractionAverage_create_result arg =
     (case arg of
        None \<Rightarrow> Inl TypeError
      | Some evaluated_concept_statistics \<Rightarrow>
          Inr \<lparr>concepts = map fst (sorted_by_value_reverse evaluated_concept_statistics)\<rparr>)"

text \<open>\<^verbatim>\<open>ConceptFractionFilteredByFractionAverageStrategy._filter_concepts\<close>\<close>

definition FractionAverage_filter_concepts :: "concept_dict \<Rightarrow> rat \<Rightarrow> concept_dict" where
  "FractionAverage_filter_concepts evaluated_concept_statistics acceptance_threshold =
     filter (\<lambda>(concept_name, count). count \<ge> acceptance_threshold) evaluated_concept_statistics"

text \<open>
  \<^verbatim>\<open>ConceptFractionFilteredByFractionAverageStrategy.parse\<close>. The method calls
  \<^verbatim>\<open>self.evaluate_metadata\<close>, which the boosted subclass overrides, so the model takes the
  \<^verbatim>\<open>evaluate_metadata\<close> of the receiving class as its first argument.
\<close>

definition FractionAverage_parse ::
  "(DocumentMetadata \<Rightarrow> error + concept_dict) \<Rightarrow> DocumentMetadata \<Rightarrow> error + Result" where
  "FractionAverage_parse evaluate_metadata document_metadata =
     (case evaluate_metadata document_metadata of
        Inl e \<Rightarrow> Inl e
      | Inr evaluated_concept_statistics \<Rightarrow>
          (case calculate_concept_fraction_average document_metadata of
             Inl e \<Rightarrow> Inl e
           | Inr avg_concept_fraction \<Rightarrow>
               if avg_concept_fraction = 0 then FractionAverage_create_result None
               else FractionAverage_create_result
                      (Some (FractionAverage_filter_concepts
                               evaluated_concept_statistics avg_concept_fraction))))"

text \<open>\<^verbatim>\<open>ConceptFractionFilteredByFractionAverageStrategy().parse\<close>\<close>

definition ConceptFractionFilteredByFractionAverageStrategy_parse ::
  "DocumentMetadata \<Rightarrow> error + Result" where
  "ConceptFractionFilteredByFractionAverageStrategy_parse =
     FractionAverage_parse FractionAverage_evaluate_metadata"

text \<open>
  \<^verbatim>\<open>ConceptFilteredByFractionAverageMentionsBoostedStrategy.evaluate_metadata\<close>.
  \<^verbatim>\<open>concept_name in document_metadata.text\<close> holds when the name is a contiguous part of the
  text. The class attribute \<^verbatim>\<open>MENTIONED_CONCEPT_BOOST\<close> is a parameter of the model; it is a
  natural number here (the class has \<open>2.0\<close>), for which \<^verbatim>\<open>pow\<close> is the power of a number
  of any sign and raises nothing.
\<close>

definition concept_value :: "nat \<Rightarrow> DocumentMetadata \<Rightarrow> string \<Rightarrow> rat \<Rightarrow> rat" where
  "concept_value MENTIONED_CONCEPT_BOOST document_metadata concept_name concept_count =
     (if sublist concept_name (text_of document_metadata)
      then concept_count ^ MENTIONED_CONCEPT_BOOST
      else concept_count)"

definition MentionsBoosted_evaluate_metadata ::
  "nat \<Rightarrow> DocumentMetadata \<Rightarrow> error + concept_dict" where
  "MentionsBoosted_evaluate_metadata MENTIONED_CONCEPT_BOOST document_metadata =
     (case dict_get (statistics document_metadata) evaluated_statistics_name of
        Inl e \<Rightarrow> Inl e
      | Inr counts \<Rightarrow>
          Inr (map (\<lambda>(concept_name, count).
                      (concept_name,
                       concept_value MENTIONED_CONCEPT_BOOST document_metadata concept_name count))
                 counts))"

text \<open>\<^verbatim>\<open>ConceptFilteredByFractionAverageMentionsBoostedStrategy().parse\<close>\<close>

definition ConceptFilteredByFractionAverageMentionsBoostedStrategy_parse ::
  "nat \<Rightarrow> DocumentMetadata \<Rightarrow> error + Result" where
  "ConceptFilteredByFractionAverageMentionsBoostedStrategy_parse MENTIONED_CONCEPT_BOOST =
     FractionAverage_parse (MentionsBoosted_evaluate_metadata MENTIONED_CONCEPT_BOOST)"


section \<open>The tokens of a text as the specification counts them\<close>




section \<open>The methods as programs on the objects they are given\<close>

text \<open>
  A call \<^verbatim>\<open>strategy.parse(document_metadata)\<close> runs on two objects that outlive it: the
  strategy \<^verbatim>\<open>self\<close> and the \<^verbatim>\<open>DocumentMetadata\<close>. \<open>Objects\<close> holds their attributes: the
  instance attributes \<^verbatim>\<open>number_of_concepts\<close> and \<^verbatim>\<open>min_fraction\<close> that
  \<^verbatim>\<open>FractionEvaluationStrategy.__init__\<close> sets, the class attribute
  \<^verbatim>\<open>MENTIONED_CONCEPT_BOOST\<close>, and the two fields of the document.

  Each method is written once more as a program of the state monad over \<open>Objects\<close>, statement
  by statement: reading an attribute (\<^verbatim>\<open>self.min_fraction\<close>, \<^verbatim>\<open>document_metadata.text\<close>) is
  \<open>attribute\<close>, binding a local name is \<open>let\<close>. The methods have no statement that assigns to
  an attribute or changes a dictionary or a list in place (\<^verbatim>\<open>sub\<close>, \<^verbatim>\<open>split\<close>, \<^verbatim>\<open>sorted\<close>, the
  comprehensions and the slice build new values), so no program below writes.
\<close>

record Objects =
  self_attributes :: FractionEvaluationStrategy
  class_MENTIONED_CONCEPT_BOOST :: nat
  document_attributes :: DocumentMetadata

definition attribute :: "(Objects \<Rightarrow> 'a) \<Rightarrow> (Objects, 'a) state" where
  "attribute field = do { objects \<leftarrow> State_Monad.get; State_Monad.return (field objects) }"

text \<open>\<^verbatim>\<open>FractionEvaluationStrategy._filter_concepts\<close>, \<^verbatim>\<open>_create_result\<close> and \<^verbatim>\<open>parse\<close>\<close>

definition FractionEvaluation_filter_concepts_st ::
  "concept_dict \<Rightarrow> (Objects, concept_dict) state" where
  "FractionEvaluation_filter_concepts_st evaluated_concept_statistics = do {
     self_min_fraction \<leftarrow> attribute (min_fraction \<circ> self_attributes);
     State_Monad.return
       (filter (\<lambda>(uri, uri_fraction_in_text).
                  case self_min_fraction of None \<Rightarrow> True
                  | Some m \<Rightarrow> uri_fraction_in_text \<ge> m)
          evaluated_concept_statistics)
   }"

definition FractionEvaluation_create_result_st ::
  "concept_dict \<Rightarrow> (Objects, Result) state" where
  "FractionEvaluation_create_result_st evaluated_concept_statistics = do {
     filtered_concepts \<leftarrow> FractionEvaluation_filter_concepts_st evaluated_concept_statistics;
     let sorted_concepts = map fst (sorted_by_value_reverse filtered_concepts);
     self_number_of_concepts \<leftarrow> attribute (number_of_concepts \<circ> self_attributes);
     State_Monad.return \<lparr>concepts = slice_upto sorted_concepts (self_number_of_concepts + 1)\<rparr>
   }"

definition FractionEvaluation_parse_st ::
  "(Objects, error + concept_dict) state \<Rightarrow> (Objects, error + Result) state" where
  "FractionEvaluation_parse_st evaluate_metadata_st = do {
     outcome \<leftarrow> evaluate_metadata_st;
     case outcome of
       Inl e \<Rightarrow> State_Monad.return (Inl e)
     | Inr evaluated_concept_statistics \<Rightarrow> do {
         result \<leftarrow> FractionEvaluation_create_result_st evaluated_concept_statistics;
         State_Monad.return (Inr result)
       }
   }"

text \<open>\<^verbatim>\<open>ConceptFractionInAllWordsStrategy.evaluate_metadata\<close>\<close>

definition InAllWords_evaluate_metadata_st :: "(Objects, error + concept_dict) state" where
  "InAllWords_evaluate_metadata_st = do {
     text \<leftarrow> attribute (text_of \<circ> document_attributes);
     let text = re_sub re_extract_annotated_words ''foo'' text re_DOTALL;
     let words = set (filter (\<lambda>word. word \<noteq> []) (re_split re_word_split text));
     let word_count = card words;
     document_statistics \<leftarrow> attribute (statistics \<circ> document_attributes);
     State_Monad.return
       (case dict_get document_statistics evaluated_statistics_name of
          Inl e \<Rightarrow> Inl e
        | Inr counts \<Rightarrow>
            dict_comprehension (\<lambda>concept_name count. true_div count (of_nat word_count)) counts)
   }"

text \<open>\<^verbatim>\<open>ConceptFractionInAllConceptsStrategy.evaluate_metadata\<close>\<close>

definition InAllConcepts_evaluate_metadata_st :: "(Objects, error + concept_dict) state" where
  "InAllConcepts_evaluate_metadata_st = do {
     document_statistics \<leftarrow> attribute (statistics \<circ> document_attributes);
     State_Monad.return
       (case dict_get document_statistics evaluated_statistics_name of
          Inl e \<Rightarrow> Inl e
        | Inr counts \<Rightarrow>
            (let annotation_count = sum_list (map snd counts)
             in dict_comprehension (\<lambda>concept_name count. true_div count annotation_count)
                  counts))
   }"

text \<open>
  \<^verbatim>\<open>ConceptFractionFilteredByFractionAverageStrategy.evaluate_metadata\<close>,
  \<^verbatim>\<open>_calculate_concept_fraction_average\<close> and \<^verbatim>\<open>parse\<close>; \<^verbatim>\<open>_filter_concepts\<close> and
  \<^verbatim>\<open>_create_result\<close> of this class read no attribute and are the functions above.
\<close>

definition FractionAverage_evaluate_metadata_st :: "(Objects, error + concept_dict) state" where
  "FractionAverage_evaluate_metadata_st = do {
     document_statistics \<leftarrow> attribute (statistics \<circ> document_attributes);
     State_Monad.return
       (case dict_get document_statistics evaluated_statistics_name of
          Inl e \<Rightarrow> Inl e
        | Inr counts \<Rightarrow> Inr (map (\<lambda>(concept_name, count). (concept_name, count)) counts))
   }"

definition calculate_concept_fraction_average_st :: "(Objects, error + rat) state" where
  "calculate_concept_fraction_average_st = do {
     document_statistics \<leftarrow> attribute (statistics \<circ> document_attributes);
     State_Monad.return
       (case dict_get document_statistics evaluated_statistics_name of
          Inl e \<Rightarrow> Inl e
        | Inr counts \<Rightarrow>
            (let annotation_count = sum_list (map snd counts);
                 number_of_concepts = length counts
             in if number_of_concepts = 0 then Inr 0
                else Inr (annotation_count / of_nat number_of_concepts)))
   }"

definition FractionAverage_parse_st ::
  "(Objects, error + concept_dict) state \<Rightarrow> (Objects, error + Result) state" where
  "FractionAverage_parse_st evaluate_metadata_st = do {
     outcome \<leftarrow> evaluate_metadata_st;
     case outcome of
       Inl e \<Rightarrow> State_Monad.return (Inl e)
     | Inr evaluated_concept_statistics \<Rightarrow> do {
         average \<leftarrow> calculate_concept_fraction_average_st;
         case average of
           Inl e \<Rightarrow> State_Monad.return (Inl e)
         | Inr avg_concept_fraction \<Rightarrow>
             State_Monad.return
               (if avg_concept_fraction = 0 then FractionAverage_create_result None
                else FractionAverage_create_result
                       (Some (FractionAverage_filter_concepts
                                evaluated_concept_statistics avg_concept_fraction)))
       }
   }"

text \<open>\<^verbatim>\<open>ConceptFilteredByFractionAverageMentionsBoostedStrategy.evaluate_metadata\<close>\<close>

definition MentionsBoosted_evaluate_metadata_st :: "(Objects, error + concept_dict) state" where
  "MentionsBoosted_evaluate_metadata_st = do {
     document_statistics \<leftarrow> attribute (statistics \<circ> document_attributes);
     document_text \<leftarrow> attribute (text_of \<circ> document_attributes);
     boost \<leftarrow> attribute class_MENTIONED_CONCEPT_BOOST;
     State_Monad.return
       (case dict_get document_statistics evaluated_statistics_name of
          Inl e \<Rightarrow> Inl e
        | Inr counts \<Rightarrow>
            Inr (map (\<lambda>(concept_name, count).
                        (concept_name,
                         if sublist concept_name document_text then count ^ boost else count))
                   counts))
   }"


section \<open>The documents of the test suite\<close>

text \<open>
  The documents that \<^verbatim>\<open>tests/test_strategies.py\<close> runs the strategies on: the five
  concepts with the counts 2, 1, 3, 4 and 5, the text with an annotation of two words, and
  the text that mentions the concept of count 2.
\<close>

definition five_counts :: concept_dict where
  "five_counts =
     [(''https://www.biofid.de/ontology/2'', 2),
      (''https://www.biofid.de/ontology/1'', 1),
      (''https://www.biofid.de/ontology/3'', 3),
      (''https://www.biofid.de/ontology/4'', 4),
      (''https://www.biofid.de/ontology/5'', 5)]"



section \<open>Auxiliary facts\<close>

lemma dict_get_count:
  "dict_get (statistics dm) evaluated_statistics_name =
     (case map_of (statistics dm) ''count'' of None \<Rightarrow> Inl KeyError | Some counts \<Rightarrow> Inr counts)"
  by (simp add: dict_get_def evaluated_statistics_name_def)

text \<open>A comprehension that returns keeps the keys and their order.\<close>

lemma dict_comprehension_keys:
  "dict_comprehension f d = Inr r \<Longrightarrow> map fst r = map fst d"
proof (induction d arbitrary: r)
  case Nil
  then show ?case by simp
next
  case (Cons kv d)
  obtain k v where kv: "kv = (k, v)" by (cases kv)
  from Cons.prems kv obtain w rest where
    "f k v = Inr w" "dict_comprehension f d = Inr rest" "r = (k, w) # rest"
    by (auto split: sum.splits)
  with Cons.IH kv show ?case by simp
qed

lemma dict_comprehension_true_div:
  "b \<noteq> 0 \<Longrightarrow>
   dict_comprehension (\<lambda>k c. true_div c b) d = Inr (map (\<lambda>(k, c). (k, c / b)) d)"
  by (induction d) (auto simp: true_div_def)

lemma dict_comprehension_div_zero:
  "d \<noteq> [] \<Longrightarrow> dict_comprehension (\<lambda>k c. true_div c 0) d = Inl ZeroDivisionError"
  by (cases d) (auto simp: true_div_def)

lemma set_sorted_by_value_reverse [simp]:
  "set (sorted_by_value_reverse d) = set d"
  by (simp add: sorted_by_value_reverse_def)

lemma length_sorted_by_value_reverse [simp]:
  "length (sorted_by_value_reverse d) = length d"
  by (simp add: sorted_by_value_reverse_def)

lemma set_slice_upto: "set (slice_upto xs k) \<subseteq> set xs"
  by (auto simp: slice_upto_def dest: in_set_takeD)

lemma length_slice_upto: "0 \<le> k \<Longrightarrow> int (length (slice_upto xs k)) \<le> k"
  by (simp add: slice_upto_def)

lemma keys_map_value:
  "fst ` set (map (\<lambda>(n, c). (n, g n c)) d) = fst ` set d"
  by (induction d) auto

lemma FractionEvaluation_create_result_subset:
  "set (concepts (FractionEvaluation_create_result self d)) \<subseteq> fst ` set d"
proof -
  have "set (concepts (FractionEvaluation_create_result self d))
        \<subseteq> set (map fst (sorted_by_value_reverse (FractionEvaluation_filter_concepts self d)))"
    using set_slice_upto [of "map fst (sorted_by_value_reverse
        (FractionEvaluation_filter_concepts self d))" "number_of_concepts self + 1"]
    by (simp add: FractionEvaluation_create_result_def Let_def)
  also have "\<dots> \<subseteq> fst ` set d"
    by (auto simp: FractionEvaluation_filter_concepts_def)
  finally show ?thesis .
qed

lemma FractionAverage_parse_subset:
  assumes "FractionAverage_parse ev dm = Inr r" and "ev dm = Inr d"
  shows "set (concepts r) \<subseteq> fst ` set d"
  using assms
  by (auto simp: FractionAverage_parse_def FractionAverage_create_result_def
      FractionAverage_filter_concepts_def split: sum.splits if_splits)




lemma slice_upto_all: "int (length xs) \<le> k \<Longrightarrow> slice_upto xs k = xs"
  by (simp add: slice_upto_def)



section \<open>Claims\<close>

text \<open>
  C1. The claim: for a document whose \<^verbatim>\<open>"count"\<close> mapping is empty,
  \<^verbatim>\<open>ConceptFractionFilteredByFractionAverageStrategy.parse\<close> returns an empty result and
  raises nothing. The code does not: the average of an empty mapping is \<open>0.0\<close>, the guard
  \<^verbatim>\<open>if avg_concept_fraction == 0.0\<close> holds, and the call \<^verbatim>\<open>self._create_result()\<close> that was
  meant to build the empty result leaves the required argument out, so \<^verbatim>\<open>TypeError\<close> is
  raised whatever the text is.
\<close>

theorem C1_empty_count_raises_TypeError:
  "ConceptFractionFilteredByFractionAverageStrategy_parse
     \<lparr>statistics = [(''count'', [])], text_of = t\<rparr> = Inl TypeError"
  by (simp add: ConceptFractionFilteredByFractionAverageStrategy_parse_def FractionAverage_parse_def
      FractionAverage_evaluate_metadata_def calculate_concept_fraction_average_def
      FractionAverage_create_result_def dict_get_def evaluated_statistics_name_def)







text \<open>
  C4. Whenever \<^verbatim>\<open>FractionEvaluationStrategy.parse\<close> returns, whatever the
  \<^verbatim>\<open>evaluate_metadata\<close> of the concrete class, the document and \<^verbatim>\<open>min_fraction\<close> are, the
  result holds at most \<^verbatim>\<open>number_of_concepts + 1\<close> concepts. \<^verbatim>\<open>number_of_concepts\<close> is the
  maximum number of concepts, a number that is not negative; the bound also holds for
  \<open>-1\<close>. Below that the slice counts from the end of the list and the bound, a negative
  number, means nothing.
\<close>

theorem C4_at_most_number_of_concepts_plus_one:
  assumes "FractionEvaluation_parse evaluate_metadata self dm = Inr r"
    and "- 1 \<le> number_of_concepts self"
  shows "int (length (concepts r)) \<le> number_of_concepts self + 1"
proof -
  from assms(1) obtain d where "r = FractionEvaluation_create_result self d"
    by (auto simp: FractionEvaluation_parse_def split: sum.splits)
  with assms(2) show ?thesis
    by (simp add: FractionEvaluation_create_result_def Let_def length_slice_upto)
qed

text \<open>
  With \<^verbatim>\<open>number_of_concepts = 1\<close> and three concepts the result has two concepts: the bound
  \<^verbatim>\<open>number_of_concepts + 1\<close> is reached.
\<close>

theorem C4_at_most_number_of_concepts_plus_one_witness:
  "ConceptFractionInAllConceptsStrategy_parse \<lparr>number_of_concepts = 1, min_fraction = None\<rparr>
     \<lparr>statistics = [(''count'', [(''b'', 2), (''a'', 1), (''c'', 3)])], text_of = []\<rparr>
     = Inr \<lparr>concepts = [''c'', ''b'']\<rparr>
   \<and> int (length [''c'', ''b'']) \<le> 1 + 1"
proof -
  let ?dm = "\<lparr>statistics = [(''count'', [(''b'', 2), (''a'', 1), (''c'', 3)])], text_of = []\<rparr>"
  let ?self = "\<lparr>number_of_concepts = 1, min_fraction = None\<rparr>"
  have p: "ConceptFractionInAllConceptsStrategy_parse ?self ?dm = Inr \<lparr>concepts = [''c'', ''b'']\<rparr>"
    by code_simp
  from C4_at_most_number_of_concepts_plus_one
         [OF p [unfolded ConceptFractionInAllConceptsStrategy_parse_def]] p
  show ?thesis by simp
qed

text \<open>
  C5. The filter of the strategies based on fractions, for a dictionary \<open>d\<close> of scores:
  \<^item> without \<^verbatim>\<open>min_fraction\<close> the filter drops nothing;
  \<^item> with \<^verbatim>\<open>min_fraction = m\<close> the filter keeps exactly the items whose score is at least
    \<open>m\<close>, so a score equal to \<open>m\<close> is kept and a score below \<open>m\<close> is dropped;
  \<^item> the result is the first \<^verbatim>\<open>number_of_concepts + 1\<close> of the kept concepts by descending
    score: every concept of the result has a score of at least \<open>m\<close>, a concept whose score
    is below \<open>m\<close> is not in the result, and when the slice cuts nothing off the result has
    exactly the concepts whose score is at least \<open>m\<close>.
\<close>

theorem C5_min_fraction_is_inclusive_threshold:
  "(min_fraction self = None \<longrightarrow> FractionEvaluation_filter_concepts self d = d)
   \<and> (min_fraction self = Some m \<longrightarrow>
        FractionEvaluation_filter_concepts self d = filter (\<lambda>(uri, score). m \<le> score) d)
   \<and> (min_fraction self = Some m \<and> (uri, m) \<in> set d \<longrightarrow>
        (uri, m) \<in> set (FractionEvaluation_filter_concepts self d))
   \<and> (min_fraction self = Some m \<and> score < m \<longrightarrow>
        (uri, score) \<notin> set (FractionEvaluation_filter_concepts self d))
   \<and> concepts (FractionEvaluation_create_result self d)
        = slice_upto (map fst (sorted_by_value_reverse
            (FractionEvaluation_filter_concepts self d))) (number_of_concepts self + 1)
   \<and> (min_fraction self = Some m \<and> uri \<in> set (concepts (FractionEvaluation_create_result self d))
        \<longrightarrow> (\<exists>score. (uri, score) \<in> set d \<and> m \<le> score))
   \<and> (min_fraction self = Some m \<and> distinct (map fst d) \<and> (uri, score) \<in> set d \<and> score < m
        \<longrightarrow> uri \<notin> set (concepts (FractionEvaluation_create_result self d)))
   \<and> (min_fraction self = Some m
        \<and> int (length (filter (\<lambda>(uri, score). m \<le> score) d)) \<le> number_of_concepts self + 1
        \<longrightarrow> set (concepts (FractionEvaluation_create_result self d))
              = {uri. \<exists>score. (uri, score) \<in> set d \<and> m \<le> score})
   \<and> (min_fraction self = None \<and> int (length d) \<le> number_of_concepts self + 1
        \<longrightarrow> set (concepts (FractionEvaluation_create_result self d)) = fst ` set d)"
proof -
  let ?kept = "FractionEvaluation_filter_concepts self d"
  let ?result = "concepts (FractionEvaluation_create_result self d)"
  have no_filter: "?kept = d" if "min_fraction self = None"
    using that by (simp add: FractionEvaluation_filter_concepts_def)
  have filtered: "?kept = filter (\<lambda>(uri, score). m \<le> score) d" if "min_fraction self = Some m"
    using that by (simp add: FractionEvaluation_filter_concepts_def)
  have result: "?result = slice_upto (map fst (sorted_by_value_reverse ?kept))
                            (number_of_concepts self + 1)"
    by (simp add: FractionEvaluation_create_result_def Let_def)
  have sound: "\<exists>score. (uri, score) \<in> set d \<and> m \<le> score"
    if some: "min_fraction self = Some m" and mem: "uri \<in> set ?result"
  proof -
    from mem result set_slice_upto [of "map fst (sorted_by_value_reverse ?kept)"
        "number_of_concepts self + 1"]
    have "uri \<in> fst ` set ?kept" by auto
    with filtered [OF some] show ?thesis by auto
  qed
  have below: "uri \<notin> set ?result"
    if some: "min_fraction self = Some m" and dist: "distinct (map fst d)"
      and item: "(uri, score) \<in> set d" and less: "score < m"
  proof
    assume "uri \<in> set ?result"
    with some obtain score' where other: "(uri, score') \<in> set d" and ge: "m \<le> score'"
      using sound by blast
    from dist item other have "score' = score"
      by (meson eq_key_imp_eq_value)
    with ge less show False by simp
  qed
  have complete: "set ?result = {uri. \<exists>score. (uri, score) \<in> set d \<and> m \<le> score}"
    if some: "min_fraction self = Some m"
      and short: "int (length (filter (\<lambda>(uri, score). m \<le> score) d))
                    \<le> number_of_concepts self + 1"
  proof -
    from short filtered [OF some]
    have "?result = map fst (sorted_by_value_reverse ?kept)"
      by (simp add: result slice_upto_all)
    then have "set ?result = fst ` set ?kept" by simp
    with filtered [OF some] show ?thesis by (auto simp: image_iff)
  qed
  have everything: "set ?result = fst ` set d"
    if none: "min_fraction self = None" and short: "int (length d) \<le> number_of_concepts self + 1"
  proof -
    from short no_filter [OF none]
    have "?result = map fst (sorted_by_value_reverse d)"
      by (simp add: result slice_upto_all)
    then show ?thesis by simp
  qed
  show ?thesis
    using no_filter filtered result sound below complete everything
    by (intro conjI impI) (auto simp del: set_sorted_by_value_reverse)
qed

text \<open>
  The scenario of the tests: the five concepts with the counts 1 to 5 have the fractions
  1/15 to 5/15. With \<^verbatim>\<open>min_fraction = 0.2\<close> the concept of count 3, whose fraction 3/15 is
  equal to the threshold, is kept, and the result has the three concepts of the counts 5, 4
  and 3.
\<close>

theorem C5_min_fraction_is_inclusive_threshold_witness:
  "InAllConcepts_evaluate_metadata \<lparr>statistics = [(''count'', five_counts)], text_of = []\<rparr>
     = Inr (map (\<lambda>(uri, count). (uri, count / 15)) five_counts)
   \<and> (''https://www.biofid.de/ontology/3'', 1 / 5)
       \<in> set (FractionEvaluation_filter_concepts
                \<lparr>number_of_concepts = 10, min_fraction = Some (1 / 5)\<rparr>
                (map (\<lambda>(uri, count). (uri, count / 15)) five_counts))
   \<and> (''https://www.biofid.de/ontology/2'', 2 / 15)
       \<notin> set (FractionEvaluation_filter_concepts
                \<lparr>number_of_concepts = 10, min_fraction = Some (1 / 5)\<rparr>
                (map (\<lambda>(uri, count). (uri, count / 15)) five_counts))
   \<and> concepts (FractionEvaluation_create_result
                \<lparr>number_of_concepts = 10, min_fraction = Some (1 / 5)\<rparr>
                (map (\<lambda>(uri, count). (uri, count / 15)) five_counts))
       = [''https://www.biofid.de/ontology/5'', ''https://www.biofid.de/ontology/4'',
          ''https://www.biofid.de/ontology/3'']"
proof -
  let ?self = "\<lparr>number_of_concepts = 10, min_fraction = Some (1 / 5)\<rparr>"
  let ?d = "map (\<lambda>(uri, count). (uri, count / 15)) five_counts"
  note c5 = C5_min_fraction_is_inclusive_threshold
      [of ?self ?d "1 / 5" "''https://www.biofid.de/ontology/3''" "2 / 15"]
  note c5' = C5_min_fraction_is_inclusive_threshold
      [of ?self ?d "1 / 5" "''https://www.biofid.de/ontology/2''" "2 / 15"]
  have some: "min_fraction ?self = Some (1 / 5)" by simp
  have scores: "InAllConcepts_evaluate_metadata
      \<lparr>statistics = [(''count'', five_counts)], text_of = []\<rparr> = Inr ?d"
    by code_simp
  have item: "(''https://www.biofid.de/ontology/3'', 1 / 5) \<in> set ?d"
    by (simp add: five_counts_def)
  have less: "(2 / 15 :: rat) < 1 / 5" by simp
  from c5 some item
  have kept: "(''https://www.biofid.de/ontology/3'', 1 / 5)
                \<in> set (FractionEvaluation_filter_concepts ?self ?d)"
    by blast
  from c5' some less
  have dropped: "(''https://www.biofid.de/ontology/2'', 2 / 15)
                \<notin> set (FractionEvaluation_filter_concepts ?self ?d)"
    by blast
  from c5 some
  have "FractionEvaluation_filter_concepts ?self ?d = filter (\<lambda>(uri, score). 1 / 5 \<le> score) ?d"
    by blast
  moreover from c5
  have "concepts (FractionEvaluation_create_result ?self ?d)
        = slice_upto (map fst (sorted_by_value_reverse
            (FractionEvaluation_filter_concepts ?self ?d))) (number_of_concepts ?self + 1)"
    by blast
  ultimately have "concepts (FractionEvaluation_create_result ?self ?d)
       = [''https://www.biofid.de/ontology/5'', ''https://www.biofid.de/ontology/4'',
          ''https://www.biofid.de/ontology/3'']"
    by (simp add: five_counts_def sorted_by_value_reverse_def slice_upto_def)
  with scores kept dropped show ?thesis by blast
qed




text \<open>
  C7. For each of the four strategies and every document with a \<^verbatim>\<open>"count"\<close> mapping: when
  \<^verbatim>\<open>parse\<close> returns a result, every concept of the result is a key of that mapping.
\<close>

theorem C7_result_uris_are_input_keys:
  assumes "map_of (statistics dm) ''count'' = Some counts"
  shows "(ConceptFractionInAllWordsStrategy_parse self dm = Inr r \<longrightarrow>
            set (concepts r) \<subseteq> fst ` set counts)
       \<and> (ConceptFractionInAllConceptsStrategy_parse self dm = Inr r \<longrightarrow>
            set (concepts r) \<subseteq> fst ` set counts)
       \<and> (ConceptFractionFilteredByFractionAverageStrategy_parse dm = Inr r \<longrightarrow>
            set (concepts r) \<subseteq> fst ` set counts)
       \<and> (ConceptFilteredByFractionAverageMentionsBoostedStrategy_parse boost dm = Inr r \<longrightarrow>
            set (concepts r) \<subseteq> fst ` set counts)"
proof (intro conjI impI)
  assume "ConceptFractionInAllWordsStrategy_parse self dm = Inr r"
  then obtain d where d: "InAllWords_evaluate_metadata dm = Inr d"
    and r: "r = FractionEvaluation_create_result self d"
    by (auto simp: ConceptFractionInAllWordsStrategy_parse_def FractionEvaluation_parse_def
        split: sum.splits)
  from d assms have "map fst d = map fst counts"
    by (auto simp: InAllWords_evaluate_metadata_def dict_get_count Let_def
        dest: dict_comprehension_keys)
  then have "fst ` set d = fst ` set counts" by (metis set_map)
  with r FractionEvaluation_create_result_subset [of self d]
  show "set (concepts r) \<subseteq> fst ` set counts" by simp
next
  assume "ConceptFractionInAllConceptsStrategy_parse self dm = Inr r"
  then obtain d where d: "InAllConcepts_evaluate_metadata dm = Inr d"
    and r: "r = FractionEvaluation_create_result self d"
    by (auto simp: ConceptFractionInAllConceptsStrategy_parse_def FractionEvaluation_parse_def
        split: sum.splits)
  from d assms have "map fst d = map fst counts"
    by (auto simp: InAllConcepts_evaluate_metadata_def dict_get_count Let_def
        dest: dict_comprehension_keys)
  then have "fst ` set d = fst ` set counts" by (metis set_map)
  with r FractionEvaluation_create_result_subset [of self d]
  show "set (concepts r) \<subseteq> fst ` set counts" by simp
next
  assume p: "ConceptFractionFilteredByFractionAverageStrategy_parse dm = Inr r"
  have "FractionAverage_evaluate_metadata dm = Inr (map (\<lambda>(n, c). (n, c)) counts)"
    using assms by (simp add: FractionAverage_evaluate_metadata_def dict_get_count)
  from FractionAverage_parse_subset
         [OF p [unfolded ConceptFractionFilteredByFractionAverageStrategy_parse_def] this]
  show "set (concepts r) \<subseteq> fst ` set counts" by (simp only: keys_map_value)
next
  assume p: "ConceptFilteredByFractionAverageMentionsBoostedStrategy_parse boost dm = Inr r"
  have "MentionsBoosted_evaluate_metadata boost dm =
          Inr (map (\<lambda>(n, c). (n, concept_value boost dm n c)) counts)"
    using assms by (simp add: MentionsBoosted_evaluate_metadata_def dict_get_count)
  from FractionAverage_parse_subset
         [OF p [unfolded ConceptFilteredByFractionAverageMentionsBoostedStrategy_parse_def] this]
  show "set (concepts r) \<subseteq> fst ` set counts" by (simp only: keys_map_value)
qed

theorem C7_result_uris_are_input_keys_witness:
  "ConceptFractionInAllConceptsStrategy_parse
     \<lparr>number_of_concepts = 10, min_fraction = Some (1 / 5)\<rparr>
     \<lparr>statistics = [(''count'', [(''b'', 2), (''a'', 1), (''c'', 3)])], text_of = []\<rparr>
     = Inr \<lparr>concepts = [''c'', ''b'']\<rparr>
   \<and> set [''c'', ''b''] \<subseteq> fst ` set [(''b'', 2 :: rat), (''a'', 1), (''c'', 3)]"
proof -
  let ?dm = "\<lparr>statistics = [(''count'', [(''b'', 2), (''a'', 1), (''c'', 3)])], text_of = []\<rparr>"
  let ?self = "\<lparr>number_of_concepts = 10, min_fraction = Some (1 / 5)\<rparr>"
  have h: "map_of (statistics ?dm) ''count'' = Some [(''b'', 2), (''a'', 1), (''c'', 3)]"
    by simp
  have p: "ConceptFractionInAllConceptsStrategy_parse ?self ?dm = Inr \<lparr>concepts = [''c'', ''b'']\<rparr>"
    by code_simp
  from C7_result_uris_are_input_keys [OF h, of ?self "\<lparr>concepts = [''c'', ''b'']\<rparr>"] p
  show ?thesis by simp
qed

text \<open>
  C8. For a document with a non-empty \<^verbatim>\<open>"count"\<close> mapping,
  \<^verbatim>\<open>ConceptFractionInAllWordsStrategy.parse\<close> ends with \<^verbatim>\<open>ZeroDivisionError\<close> exactly when the
  text has no word, and \<^verbatim>\<open>ConceptFractionInAllConceptsStrategy.parse\<close> exactly when the counts
  add up to zero; otherwise each of them returns a result. The exception raised in
  \<^verbatim>\<open>evaluate_metadata\<close> is the outcome of \<^verbatim>\<open>parse\<close>: nothing catches it.
\<close>

theorem C8_division_by_zero_iff_zero_denominator:
  assumes "map_of (statistics dm) ''count'' = Some counts" and "counts \<noteq> []"
  shows "(ConceptFractionInAllWordsStrategy_parse self dm = Inl ZeroDivisionError
            \<longleftrightarrow> word_count (text_of dm) = 0)
       \<and> (ConceptFractionInAllConceptsStrategy_parse self dm = Inl ZeroDivisionError
            \<longleftrightarrow> sum_list (map snd counts) = 0)
       \<and> (word_count (text_of dm) \<noteq> 0 \<longrightarrow>
            (\<exists>r. ConceptFractionInAllWordsStrategy_parse self dm = Inr r))
       \<and> (sum_list (map snd counts) \<noteq> 0 \<longrightarrow>
            (\<exists>r. ConceptFractionInAllConceptsStrategy_parse self dm = Inr r))"
proof -
  have in_words: "ConceptFractionInAllWordsStrategy_parse self dm =
      (if word_count (text_of dm) = 0 then Inl ZeroDivisionError
       else Inr (FractionEvaluation_create_result self
              (map (\<lambda>(k, c). (k, c / of_nat (word_count (text_of dm)))) counts)))"
    using assms
    by (simp add: ConceptFractionInAllWordsStrategy_parse_def FractionEvaluation_parse_def
        InAllWords_evaluate_metadata_def dict_get_count dict_comprehension_div_zero
        dict_comprehension_true_div)
  have in_concepts: "ConceptFractionInAllConceptsStrategy_parse self dm =
      (if sum_list (map snd counts) = 0 then Inl ZeroDivisionError
       else Inr (FractionEvaluation_create_result self
              (map (\<lambda>(k, c). (k, c / sum_list (map snd counts))) counts)))"
    using assms
    by (simp add: ConceptFractionInAllConceptsStrategy_parse_def FractionEvaluation_parse_def
        InAllConcepts_evaluate_metadata_def dict_get_count dict_comprehension_div_zero
        dict_comprehension_true_div)
  show ?thesis
    by (simp add: in_words in_concepts)
qed

theorem C8_division_by_zero_iff_zero_denominator_witness:
  "ConceptFractionInAllWordsStrategy_parse \<lparr>number_of_concepts = 10, min_fraction = None\<rparr>
     \<lparr>statistics = [(''count'', [(''u'', 1)])], text_of = []\<rparr> = Inl ZeroDivisionError
   \<and> ConceptFractionInAllConceptsStrategy_parse \<lparr>number_of_concepts = 10, min_fraction = None\<rparr>
     \<lparr>statistics = [(''count'', [(''u'', 1)])], text_of = []\<rparr> \<noteq> Inl ZeroDivisionError"
proof -
  let ?dm = "\<lparr>statistics = [(''count'', [(''u'', 1)])], text_of = []\<rparr>"
  have h: "map_of (statistics ?dm) ''count'' = Some [(''u'', 1)]" by simp
  have wc: "word_count [] = 0" by code_simp
  from C8_division_by_zero_iff_zero_denominator
         [OF h, of "\<lparr>number_of_concepts = 10, min_fraction = None\<rparr>"] wc
  show ?thesis by simp
qed

text \<open>What each program returns, and that it leaves the objects as they are.\<close>

lemma run_attribute [simp]: "run_state (attribute field) objects = (field objects, objects)"
  by (simp add: attribute_def)

lemma run_FractionEvaluation_create_result_st:
  "run_state (FractionEvaluation_create_result_st d) objects
     = (FractionEvaluation_create_result (self_attributes objects) d, objects)"
  by (simp add: FractionEvaluation_create_result_st_def FractionEvaluation_filter_concepts_st_def
      FractionEvaluation_create_result_def FractionEvaluation_filter_concepts_def Let_def)

lemma run_FractionEvaluation_parse_st:
  assumes "run_state evaluate_metadata_st objects
             = (evaluate_metadata (document_attributes objects), objects)"
  shows "run_state (FractionEvaluation_parse_st evaluate_metadata_st) objects
           = (FractionEvaluation_parse evaluate_metadata (self_attributes objects)
                (document_attributes objects), objects)"
  using assms
  by (simp add: FractionEvaluation_parse_st_def FractionEvaluation_parse_def
      run_FractionEvaluation_create_result_st split: sum.splits)

lemma run_InAllWords_evaluate_metadata_st:
  "run_state InAllWords_evaluate_metadata_st objects
     = (InAllWords_evaluate_metadata (document_attributes objects), objects)"
  by (simp add: InAllWords_evaluate_metadata_st_def InAllWords_evaluate_metadata_def
      word_count_def words_of_def replace_annotated_words_def Let_def)

lemma run_InAllConcepts_evaluate_metadata_st:
  "run_state InAllConcepts_evaluate_metadata_st objects
     = (InAllConcepts_evaluate_metadata (document_attributes objects), objects)"
  by (simp add: InAllConcepts_evaluate_metadata_st_def InAllConcepts_evaluate_metadata_def)

lemma run_FractionAverage_evaluate_metadata_st:
  "run_state FractionAverage_evaluate_metadata_st objects
     = (FractionAverage_evaluate_metadata (document_attributes objects), objects)"
  by (simp add: FractionAverage_evaluate_metadata_st_def FractionAverage_evaluate_metadata_def)

lemma run_calculate_concept_fraction_average_st:
  "run_state calculate_concept_fraction_average_st objects
     = (calculate_concept_fraction_average (document_attributes objects), objects)"
  by (simp add: calculate_concept_fraction_average_st_def calculate_concept_fraction_average_def)

lemma run_MentionsBoosted_evaluate_metadata_st:
  "run_state MentionsBoosted_evaluate_metadata_st objects
     = (MentionsBoosted_evaluate_metadata (class_MENTIONED_CONCEPT_BOOST objects)
          (document_attributes objects), objects)"
  by (simp add: MentionsBoosted_evaluate_metadata_st_def MentionsBoosted_evaluate_metadata_def
      concept_value_def split: sum.splits)

lemma run_FractionAverage_parse_st:
  assumes "run_state evaluate_metadata_st objects
             = (evaluate_metadata (document_attributes objects), objects)"
  shows "run_state (FractionAverage_parse_st evaluate_metadata_st) objects
           = (FractionAverage_parse evaluate_metadata (document_attributes objects), objects)"
  using assms
  by (simp add: FractionAverage_parse_st_def FractionAverage_parse_def
      run_calculate_concept_fraction_average_st split: sum.splits)

text \<open>
  C9. Run on any strategy and document, the \<^verbatim>\<open>parse\<close> of each of the four strategies ends
  with the objects it started with (the attributes of the strategy, the statistics and the
  text of the document are what they were), and what it returns is the value of a function
  of those attributes alone.
\<close>

theorem C9_parse_changes_no_attribute:
  "run_state (FractionEvaluation_parse_st InAllWords_evaluate_metadata_st) objects
     = (ConceptFractionInAllWordsStrategy_parse (self_attributes objects)
          (document_attributes objects), objects)
   \<and> run_state (FractionEvaluation_parse_st InAllConcepts_evaluate_metadata_st) objects
     = (ConceptFractionInAllConceptsStrategy_parse (self_attributes objects)
          (document_attributes objects), objects)
   \<and> run_state (FractionAverage_parse_st FractionAverage_evaluate_metadata_st) objects
     = (ConceptFractionFilteredByFractionAverageStrategy_parse
          (document_attributes objects), objects)
   \<and> run_state (FractionAverage_parse_st MentionsBoosted_evaluate_metadata_st) objects
     = (ConceptFilteredByFractionAverageMentionsBoostedStrategy_parse
          (class_MENTIONED_CONCEPT_BOOST objects) (document_attributes objects), objects)"
proof (intro conjI)
  show "run_state (FractionEvaluation_parse_st InAllWords_evaluate_metadata_st) objects
     = (ConceptFractionInAllWordsStrategy_parse (self_attributes objects)
          (document_attributes objects), objects)"
    unfolding ConceptFractionInAllWordsStrategy_parse_def
    by (rule run_FractionEvaluation_parse_st) (rule run_InAllWords_evaluate_metadata_st)
  show "run_state (FractionEvaluation_parse_st InAllConcepts_evaluate_metadata_st) objects
     = (ConceptFractionInAllConceptsStrategy_parse (self_attributes objects)
          (document_attributes objects), objects)"
    unfolding ConceptFractionInAllConceptsStrategy_parse_def
    by (rule run_FractionEvaluation_parse_st) (rule run_InAllConcepts_evaluate_metadata_st)
  show "run_state (FractionAverage_parse_st FractionAverage_evaluate_metadata_st) objects
     = (ConceptFractionFilteredByFractionAverageStrategy_parse
          (document_attributes objects), objects)"
    unfolding ConceptFractionFilteredByFractionAverageStrategy_parse_def
    by (rule run_FractionAverage_parse_st) (rule run_FractionAverage_evaluate_metadata_st)
  show "run_state (FractionAverage_parse_st MentionsBoosted_evaluate_metadata_st) objects
     = (ConceptFilteredByFractionAverageMentionsBoostedStrategy_parse
          (class_MENTIONED_CONCEPT_BOOST objects) (document_attributes objects), objects)"
    unfolding ConceptFilteredByFractionAverageMentionsBoostedStrategy_parse_def
    by (rule run_FractionAverage_parse_st) (rule run_MentionsBoosted_evaluate_metadata_st)
qed

text \<open>
  C10. For a document whose text is empty and whose \<^verbatim>\<open>"count"\<close> mapping has no empty
  string among its keys, the boosted strategy and
  \<^verbatim>\<open>ConceptFractionFilteredByFractionAverageStrategy\<close> have the same outcome of \<^verbatim>\<open>parse\<close>,
  whatever the boost is: only the empty string is part of the empty text.
\<close>

theorem C10_no_text_no_boost:
  assumes "text_of dm = []"
    and "map_of (statistics dm) ''count'' = Some counts"
    and "[] \<notin> fst ` set counts"
  shows "ConceptFilteredByFractionAverageMentionsBoostedStrategy_parse boost dm =
         ConceptFractionFilteredByFractionAverageStrategy_parse dm"
proof -
  have "concept_value boost dm n c = c" if "(n, c) \<in> set counts" for n c
  proof -
    from that assms(3) have "n \<noteq> []" by force
    with assms(1) show ?thesis by (simp add: concept_value_def)
  qed
  then have "map (\<lambda>(n, c). (n, concept_value boost dm n c)) counts
             = map (\<lambda>(n, c). (n, c)) counts"
    by (intro map_cong) auto
  with assms(2) have
    "MentionsBoosted_evaluate_metadata boost dm = FractionAverage_evaluate_metadata dm"
    by (simp add: MentionsBoosted_evaluate_metadata_def FractionAverage_evaluate_metadata_def
        dict_get_count)
  then show ?thesis
    by (simp add: ConceptFilteredByFractionAverageMentionsBoostedStrategy_parse_def
        ConceptFractionFilteredByFractionAverageStrategy_parse_def FractionAverage_parse_def)
qed

text \<open>
  Three concepts with the counts 2, 1 and 3 and no text: both strategies return the one
  concept that reaches the average 2, and the one above it, in the same order.
\<close>

theorem C10_no_text_no_boost_witness:
  "ConceptFilteredByFractionAverageMentionsBoostedStrategy_parse 2
     \<lparr>statistics = [(''count'', [(''b'', 2), (''a'', 1), (''c'', 3)])], text_of = []\<rparr>
   = ConceptFractionFilteredByFractionAverageStrategy_parse
     \<lparr>statistics = [(''count'', [(''b'', 2), (''a'', 1), (''c'', 3)])], text_of = []\<rparr>"
proof -
  let ?dm = "\<lparr>statistics = [(''count'', [(''b'', 2), (''a'', 1), (''c'', 3)])], text_of = []\<rparr>"
  have h: "map_of (statistics ?dm) ''count'' = Some [(''b'', 2), (''a'', 1), (''c'', 3)]" by simp
  have t: "text_of ?dm = []" by simp
  have n: "[] \<notin> fst ` set [(''b'', 2 :: rat), (''a'', 1), (''c'', 3)]" by simp
  from C10_no_text_no_boost [OF t h n] show ?thesis .
qed

end
